theory Spec2Isabelle
  imports Main "HOL-Library.Word" "HOL-Library.Monad_Syntax"
begin

unbundle bit_operations_syntax

section \<open>Object files: sections and their flags (obj/obj.go)\<close>

type_synonym u8 = "8 word"
type_synonym u32 = "32 word"
type_synonym u64 = "64 word"

text \<open>
  \<^verbatim>\<open>type sectionFlags uint8\<close> with
  \<^verbatim>\<open>sectionFlagReadOnly sectionFlags = 1 << iota\<close> and
  \<^verbatim>\<open>sectionFlagZeroInitialized\<close> following it.
\<close>

definition sectionFlagReadOnly :: u8 where
  "sectionFlagReadOnly = push_bit 0 1"

definition sectionFlagZeroInitialized :: u8 where
  "sectionFlagZeroInitialized = push_bit 1 1"

text \<open>
  A \<^verbatim>\<open>Section\<close>. The embedded \<^verbatim>\<open>SectionFlags\<close> struct is the field \<open>flags\<close> (\<^verbatim>\<open>f\<close> in the source).
  The \<^verbatim>\<open>File\<close> back pointer is not needed by any function below and is left out.

  Modelled from the spec: the \<open>mapped\<close> flag. \<^verbatim>\<open>openElf\<close> calls \<^verbatim>\<open>SetMapped\<close>,
  but the declaration of that flag is not among the sources; the spec lists \<open>mapped\<close>
  as the third section flag, so it is kept as a field of its own.
\<close>

record Section =
  Name :: string
  ID :: int
  RawID :: int
  Addr :: u64
  Size :: u64
  flags :: u8
  mapped :: bool

definition ReadOnly :: "'a Section_scheme \<Rightarrow> bool" where
  "ReadOnly s = (flags s AND sectionFlagReadOnly \<noteq> 0)"

definition SetReadOnly :: "bool \<Rightarrow> 'a Section_scheme \<Rightarrow> 'a Section_scheme" where
  "SetReadOnly v s =
     (if v then s\<lparr>flags := flags s OR sectionFlagReadOnly\<rparr>
      else s\<lparr>flags := flags s AND NOT sectionFlagReadOnly\<rparr>)"

definition ZeroInitialize :: "'a Section_scheme \<Rightarrow> bool" where
  "ZeroInitialize s = (flags s AND sectionFlagReadOnly \<noteq> 0)"

definition SetZeroInitialized :: "bool \<Rightarrow> 'a Section_scheme \<Rightarrow> 'a Section_scheme" where
  "SetZeroInitialized v s =
     (if v then s\<lparr>flags := flags s OR sectionFlagZeroInitialized\<rparr>
      else s\<lparr>flags := flags s AND NOT sectionFlagZeroInitialized\<rparr>)"

definition Mapped :: "'a Section_scheme \<Rightarrow> bool" where
  "Mapped s = mapped s"

definition SetMapped :: "bool \<Rightarrow> 'a Section_scheme \<Rightarrow> 'a Section_scheme" where
  "SetMapped v s = s\<lparr>mapped := v\<rparr>"


section \<open>Outcomes and errors\<close>

text \<open>
  A Go call either panics or returns. Errors are values: one constructor for each
  \<^verbatim>\<open>fmt.Errorf\<close> call site of \<^verbatim>\<open>Open\<close> and \<^verbatim>\<open>openElf\<close> (arguments
  that are only formatted into the message are kept as they are), and \<open>External\<close> for an
  error value made outside the package (by the reader, by \<^verbatim>\<open>debug/elf\<close> or by the
  operating system) and passed through.
\<close>

datatype 'a go = Panic string | Return 'a

datatype error =
    External string
  | Unrecognized
  | UnknownClass u8
  | BadSymbolSection nat u32
  | NonSymbolSection nat nat
  | NoTargetSection nat
  | MissingTargetSection nat u32
  | ReadingSymbolTable error
  | BadStringSection nat u32
  | ReadingStringTable nat error

section \<open>The ELF file as \<^verbatim>\<open>debug/elf\<close> presents it\<close>

text \<open>
  The fields of \<^verbatim>\<open>elf.Section\<close> and \<^verbatim>\<open>elf.File\<close> that the package reads, and
  the constants of \<^verbatim>\<open>debug/elf\<close> it names (their values are those of the ELF
  specification).
\<close>

record elf_Section =
  elf_Name :: string
  elf_Type :: u32
  elf_Flags :: u64
  elf_Addr :: u64
  elf_Size :: u64
  elf_Link :: u32
  elf_Info :: u32

record elf_File =
  Class :: u8
  BigEndian :: bool
  Type :: "16 word"
  Machine :: "16 word"
  Sections :: "elf_Section list"

definition SHT_NULL :: u32 where "SHT_NULL = 0"
definition SHT_PROGBITS :: u32 where "SHT_PROGBITS = 1"
definition SHT_SYMTAB :: u32 where "SHT_SYMTAB = 2"
definition SHT_STRTAB :: u32 where "SHT_STRTAB = 3"
definition SHT_RELA :: u32 where "SHT_RELA = 4"
definition SHT_NOBITS :: u32 where "SHT_NOBITS = 8"
definition SHT_REL :: u32 where "SHT_REL = 9"
definition SHT_DYNSYM :: u32 where "SHT_DYNSYM = 11"
definition SHT_LOPROC :: u32 where "SHT_LOPROC = 0x70000000"

definition SHF_WRITE :: u64 where "SHF_WRITE = 0x1"
definition SHF_ALLOC :: u64 where "SHF_ALLOC = 0x2"
definition SHF_EXECINSTR :: u64 where "SHF_EXECINSTR = 0x4"

definition ELFCLASS32 :: u8 where "ELFCLASS32 = 1"
definition ELFCLASS64 :: u8 where "ELFCLASS64 = 2"
definition ET_REL :: "16 word" where "ET_REL = 1"
definition EM_386 :: "16 word" where "EM_386 = 3"
definition EM_ARM :: "16 word" where "EM_ARM = 40"
definition EM_X86_64 :: "16 word" where "EM_X86_64 = 62"
definition Sym32Size :: u64 where "Sym32Size = 16"
definition Sym64Size :: u64 where "Sym64Size = 24"

section \<open>The ELF backend (obj/elf.go)\<close>

text \<open>\<^verbatim>\<open>arch.Layout\<close>: \<open>order\<close> is 0 for little endian and 1 for big endian.\<close>

record Layout =
  order :: u8
  wordSize :: u8

definition NewLayout :: "bool \<Rightarrow> int \<Rightarrow> Layout go" where
  "NewLayout bigEndian ws =
     (if ws < 1 \<or> ws > 8 \<or> \<not> (ws = 1 \<or> ws = 2 \<or> ws = 4 \<or> ws = 8)
      then Panic ''word size must be 1, 2, 4, or 8''
      else Return \<lparr>order = (if bigEndian then 1 else 0), wordSize = word_of_int ws\<rparr>)"

text \<open>\<^verbatim>\<open>arch.Arch\<close>, with the two architectures the package declares.\<close>

record Arch =
  arch_Layout :: Layout
  GoArch :: string
  MinFrameSize :: int

definition AMD64 :: Arch where
  "AMD64 = \<lparr>arch_Layout = \<lparr>order = 0, wordSize = 8\<rparr>, GoArch = ''amd64'', MinFrameSize = 0\<rparr>"

definition I386 :: Arch where
  "I386 = \<lparr>arch_Layout = \<lparr>order = 0, wordSize = 4\<rparr>, GoArch = ''386'', MinFrameSize = 0\<rparr>"

text \<open>
  Pointers to \<^verbatim>\<open>elfSection\<close> objects are indices into \<open>sections\<close> (every
  \<^verbatim>\<open>elfSection\<close> is appended there when it is made, and never moved). The symbol
  table a relocation section refers to is \<^verbatim>\<open>emptyElfSymTab\<close> or one of the two
  entries of \<open>symTabs\<close>.
\<close>

datatype symTabRef = EmptySymTab | SymTabAt nat

record elfSectionRel =
  rel_target :: "nat option"
  rel_symTab :: symTabRef

record elfSection = Section +
  elf :: elf_Section
  relocSections :: "nat list"
  rel :: "elfSectionRel option"

record Data =
  data_Addr :: u64
  P :: "u8 list"
  data_Layout :: Layout

record elfSymTab =
  tab_start :: u32
  tab_end :: u32
  tab_section :: "nat option"
  tab_data :: Data
  tab_strings :: Data

definition rcUnknown :: u32 where "rcUnknown = 0"
definition rcElfX86_64 :: u32 where "rcElfX86_64 = 1"
definition rcElf386 :: u32 where "rcElf386 = 2"

text \<open>
  The embedded \<^verbatim>\<open>elfArch\<close> is the two fields \<open>arch\<close> (a pointer, \<open>None\<close> is nil)
  and \<open>relClass\<close>.
\<close>

record elfFile =
  ff :: elf_File
  arch :: "Arch option"
  relClass :: u32
  elfLayout :: Layout
  symSize :: u64
  relSize :: u64
  relaSize :: u64
  relocatable :: bool
  sections :: "elfSection list"
  shnToSection :: "nat option list"
  symTabs :: "elfSymTab list"

text \<open>
  \<^verbatim>\<open>elfArches[ff.Machine]\<close>; a missing key gives the zero value, a nil architecture and
  the relocation class 0.
\<close>

definition elfArches :: "16 word \<Rightarrow> Arch option \<times> u32" where
  "elfArches m =
     (if m = EM_X86_64 then (Some AMD64, rcElfX86_64)
      else if m = EM_386 then (Some I386, rcElf386)
      else (None, rcUnknown))"

definition canHaveRelocs :: "elfSection \<Rightarrow> bool" where
  "canHaveRelocs s =
     (elf_Type (elf s) = SHT_PROGBITS \<or> elf_Type (elf s) = SHT_NOBITS \<or> elf_Type (elf s) \<ge> SHT_LOPROC)"

definition lookupShn :: "elfFile \<Rightarrow> u32 \<Rightarrow> nat option" where
  "lookupShn f shn =
     (if unat shn < length (shnToSection f) then shnToSection f ! unat shn else None)"


text \<open>
  What lies outside the package. \<open>ReadAt r n off\<close> is \<^verbatim>\<open>r.ReadAt(p, off)\<close> for a
  buffer \<open>p\<close> of \<open>n\<close> bytes: the bytes it stored and its error. An error made outside the package is known by its
  message only, and becomes \<open>External\<close> where the package returns it. \<open>NewFile\<close> is
  \<^verbatim>\<open>elf.NewFile\<close>. \<open>sectionBytes\<close> is the cached read of a section's contents
  (\<^verbatim>\<open>mmap\<close>, or \<^verbatim>\<open>ioutil.ReadAll\<close> of the section), which returns
  \<^verbatim>\<open>elf.Size\<close> bytes or an error, or panics. \<open>readRelocs\<close> stands for reading and
  decoding the relocation sections that apply to a section, which \<^verbatim>\<open>sectionRelocs\<close>
  does when there is at least one.
\<close>

type_synonym ReaderAt = "nat \<Rightarrow> nat \<Rightarrow> u8 list \<times> string option"

record env =
  NewFile :: "ReaderAt \<Rightarrow> string + elf_File"
  sectionBytes :: "elf_Section \<Rightarrow> (string + u8 list) go"
  readRelocs :: "elfSection \<Rightarrow> string option"

definition sectionRelocs :: "env \<Rightarrow> elfSection \<Rightarrow> string option" where
  "sectionRelocs e s = (case relocSections s of [] \<Rightarrow> None | _ \<Rightarrow> readRelocs e s)"

text \<open>
  \<^verbatim>\<open>elfSectionData\<close> returns an error and fills \<^verbatim>\<open>*d\<close>. When reading the
  relocations fails it returns \<^verbatim>\<open>s.dataErr\<close>, which is nil at that point, and leaves
  \<^verbatim>\<open>*d\<close> as it was. The slice \<^verbatim>\<open>bytes[addr-es.Addr:][:size]\<close> is within the
  \<^verbatim>\<open>elf.Size\<close> bytes read, by the range check before it. The layout of the data is
  \<^verbatim>\<open>f.arch.Layout\<close>: when the machine of the file is not in \<^verbatim>\<open>elfArches\<close>,
  \<^verbatim>\<open>f.arch\<close> is nil and reading its field panics.
\<close>

definition elfSectionData ::
  "env \<Rightarrow> elfFile \<Rightarrow> elfSection \<Rightarrow> u64 \<Rightarrow> u64 \<Rightarrow> Data \<Rightarrow> (error option \<times> Data) go" where
  "elfSectionData e f s addr sz d =
     (let es = elf s in
      if addr + sz < addr then Panic ''address overflow''
      else if addr < elf_Addr es \<or> addr + sz > elf_Addr es + elf_Size es
      then Panic ''requested data is outside section''
      else case sectionBytes e es of
             Panic m \<Rightarrow> Panic m
           | Return (Inl err) \<Rightarrow> Return (Some (External err), d)
           | Return (Inr bytes) \<Rightarrow>
               (case sectionRelocs e s of
                  Some err \<Rightarrow> Return (None, d)
                | None \<Rightarrow>
                    (case arch f of
                       None \<Rightarrow> Panic ''nil pointer dereference''
                     | Some a \<Rightarrow>
                         Return (None, \<lparr>data_Addr = addr,
                                        P = take (unat sz) (drop (unat (addr - elf_Addr es)) bytes),
                                        data_Layout = arch_Layout a\<rparr>))))"

text \<open>The body of the loop over \<^verbatim>\<open>ff.Sections\<close>, for a section that is not \<^verbatim>\<open>SHT_NULL\<close>.\<close>

definition newSection :: "elfFile \<Rightarrow> nat \<Rightarrow> elf_Section \<Rightarrow> elfSection" where
  "newSection f elfID elfSect =
     (let s = \<lparr>Name = elf_Name elfSect, ID = int (length (sections f)), RawID = int elfID,
                Addr = elf_Addr elfSect, Size = elf_Size elfSect, flags = 0, mapped = False,
                elf = elfSect, relocSections = [], rel = None\<rparr>;
          s = (if \<not> relocatable f \<and> elf_Flags elfSect AND SHF_ALLOC \<noteq> 0 then SetMapped True s else s);
          s = (if elf_Flags elfSect AND SHF_WRITE = 0 then SetReadOnly True s else s);
          s = (if elf_Type elfSect = SHT_NOBITS then SetZeroInitialized True s else s)
      in s)"

definition setSymTabSection :: "nat \<Rightarrow> nat \<Rightarrow> elfFile \<Rightarrow> elfFile" where
  "setSymTabSection i es f = f\<lparr>symTabs := (symTabs f)[i := (symTabs f ! i)\<lparr>tab_section := Some es\<rparr>]\<rparr>"

definition sectionStep ::
  "nat \<Rightarrow> elf_Section \<Rightarrow> elfFile \<times> nat list \<times> nat list \<Rightarrow> elfFile \<times> nat list \<times> nat list" where
  "sectionStep elfID elfSect st =
     (case st of (f, relSections, relocatableSections) \<Rightarrow>
        let s = newSection f elfID elfSect;
            es = length (sections f);
            f = f\<lparr>sections := sections f @ [s], shnToSection := (shnToSection f)[elfID := Some es]\<rparr>;
            f = (if elf_Type elfSect = SHT_SYMTAB then setSymTabSection 0 es f
                 else if elf_Type elfSect = SHT_DYNSYM then setSymTabSection 1 es f
                 else f);
            relSections = (if elf_Type elfSect = SHT_REL \<or> elf_Type elfSect = SHT_RELA
                           then relSections @ [es] else relSections);
            relocatableSections = (if elf_Flags elfSect AND SHF_ALLOC \<noteq> 0 \<and> canHaveRelocs s
                                   then relocatableSections @ [es] else relocatableSections)
        in (f, relSections, relocatableSections))"

fun sectionLoop ::
  "nat \<Rightarrow> elf_Section list \<Rightarrow> elfFile \<times> nat list \<times> nat list \<Rightarrow> elfFile \<times> nat list \<times> nat list" where
  "sectionLoop elfID [] st = st"
| "sectionLoop elfID (elfSect # rest) st =
     sectionLoop (Suc elfID) rest
       (if elf_Type elfSect = SHT_NULL then st else sectionStep elfID elfSect st)"

text \<open>The loop over \<^verbatim>\<open>relSections\<close>.\<close>

fun findSymTab :: "elfSymTab list \<Rightarrow> nat \<Rightarrow> nat \<Rightarrow> nat option" where
  "findSymTab [] i symSection = None"
| "findSymTab (t # ts) i symSection =
     (if tab_section t = Some symSection then Some i else findSymTab ts (Suc i) symSection)"

definition updSection :: "nat \<Rightarrow> (elfSection \<Rightarrow> elfSection) \<Rightarrow> elfFile \<Rightarrow> elfFile" where
  "updSection i g f = f\<lparr>sections := (sections f)[i := g (sections f ! i)]\<rparr>"

definition relSectionStep :: "nat list \<Rightarrow> nat \<Rightarrow> elfFile \<Rightarrow> error + elfFile" where
  "relSectionStep relocatableSections es f =
     (let shnSyms = elf_Link (elf (sections f ! es)) in
      case (if shnSyms = 0 then Inr EmptySymTab
            else case lookupShn f shnSyms of
                   None \<Rightarrow> Inl (BadSymbolSection es shnSyms)
                 | Some symSection \<Rightarrow>
                     (case findSymTab (symTabs f) 0 symSection of
                        None \<Rightarrow> Inl (NonSymbolSection es symSection)
                      | Some i \<Rightarrow> Inr (SymTabAt i))) of
        Inl err \<Rightarrow> Inl err
      | Inr st \<Rightarrow>
          let f = updSection es (\<lambda>s. s\<lparr>rel := Some \<lparr>rel_target = None, rel_symTab = st\<rparr>\<rparr>) f;
              shnTarget = elf_Info (elf (sections f ! es))
          in if shnTarget = 0 then
               (if relocatable f then Inl (NoTargetSection es)
                else Inr (fold (\<lambda>ls. updSection ls (\<lambda>s. s\<lparr>relocSections := relocSections s @ [es]\<rparr>))
                            relocatableSections f))
             else
               (case lookupShn f shnTarget of
                  None \<Rightarrow> Inl (MissingTargetSection es shnTarget)
                | Some tgt \<Rightarrow>
                    if canHaveRelocs (sections f ! tgt) then
                      Inr (updSection es (\<lambda>s. s\<lparr>rel := Some \<lparr>rel_target = Some tgt, rel_symTab = st\<rparr>\<rparr>)
                            (updSection tgt (\<lambda>s. s\<lparr>relocSections := relocSections s @ [es]\<rparr>) f))
                    else Inr f))"

fun relSectionLoop :: "nat list \<Rightarrow> nat list \<Rightarrow> elfFile \<Rightarrow> error + elfFile" where
  "relSectionLoop relocatableSections [] f = Inr f"
| "relSectionLoop relocatableSections (es # rest) f =
     (case relSectionStep relocatableSections es f of
        Inl err \<Rightarrow> Inl err
      | Inr f' \<Rightarrow> relSectionLoop relocatableSections rest f')"


text \<open>The loop over \<^verbatim>\<open>f.symTabs\<close>; \<open>nSyms\<close> is threaded through.\<close>

definition symTabStep :: "env \<Rightarrow> nat \<Rightarrow> elfFile \<times> u32 \<Rightarrow> (error + elfFile \<times> u32) go" where
  "symTabStep e i st =
     (let f = fst st; nSyms = snd st; t = symTabs f ! i in
      case tab_section t of
        None \<Rightarrow>
          Return (Inr (f\<lparr>symTabs := (symTabs f)[i := t\<lparr>tab_start := nSyms, tab_end := nSyms\<rparr>]\<rparr>, nSyms))
      | Some es \<Rightarrow>
          (case elfSectionData e f (sections f ! es) (Addr (sections f ! es)) (Size (sections f ! es))
                  (tab_data t) of
             Panic m \<Rightarrow> Panic m
           | Return (Some err, d) \<Rightarrow> Return (Inl (ReadingSymbolTable err))
           | Return (None, d) \<Rightarrow>
               (let t = t\<lparr>tab_data := d\<lparr>data_Layout := elfLayout f\<rparr>\<rparr>;
                    count = (ucast (Size (sections f ! es) div symSize f - 1) :: u32);
                    t = t\<lparr>tab_start := nSyms, tab_end := nSyms + count\<rparr>;
                    nSyms = nSyms + count;
                    strShn = elf_Link (elf (sections f ! es))
                in case lookupShn f strShn of
                     None \<Rightarrow> Return (Inl (BadStringSection es strShn))
                   | Some strSection \<Rightarrow>
                       if elf_Type (elf (sections f ! strSection)) \<noteq> SHT_STRTAB
                       then Return (Inl (BadStringSection es strShn))
                       else
                         (case elfSectionData e f (sections f ! strSection)
                                 (Addr (sections f ! strSection)) (Size (sections f ! strSection))
                                 (tab_strings t) of
                            Panic m \<Rightarrow> Panic m
                          | Return (Some err, d) \<Rightarrow> Return (Inl (ReadingStringTable es err))
                          | Return (None, d) \<Rightarrow>
                              (let t = t\<lparr>tab_strings := d\<lparr>data_Layout := elfLayout f\<rparr>\<rparr>
                               in Return (Inr (f\<lparr>symTabs := (symTabs f)[i := t]\<rparr>, nSyms)))))))"

fun symTabLoop :: "env \<Rightarrow> nat list \<Rightarrow> elfFile \<times> u32 \<Rightarrow> (error + elfFile \<times> u32) go" where
  "symTabLoop e [] st = Return (Inr st)"
| "symTabLoop e (i # rest) st =
     (case symTabStep e i st of
        Panic m \<Rightarrow> Panic m
      | Return (Inl err) \<Rightarrow> Return (Inl err)
      | Return (Inr st') \<Rightarrow> symTabLoop e rest st')"

definition zeroData :: Data where
  "zeroData = \<lparr>data_Addr = 0, P = [], data_Layout = \<lparr>order = 0, wordSize = 0\<rparr>\<rparr>"

definition zeroSymTab :: elfSymTab where
  "zeroSymTab = \<lparr>tab_start = 0, tab_end = 0, tab_section = None, tab_data = zeroData, tab_strings = zeroData\<rparr>"

definition elf_magic :: "u8 list" where
  "elf_magic = [0x7f, 0x45, 0x4c, 0x46]"

text \<open>
  \<^verbatim>\<open>openElf\<close> returns \<^verbatim>\<open>(isElf, file, err)\<close>. The four bytes of \<^verbatim>\<open>magic\<close> start as
  zero; the read stores what it read. The file descriptor and the page size only select how
  \<open>sectionBytes\<close> reads, and are part of the environment. \<open>newElfFile\<close> is the
  \<^verbatim>\<open>elfFile\<close> with its per-class constants, \<open>openElf_tables\<close> the processing of the
  section table, the relocation sections and the symbol tables.
\<close>

definition newElfFile :: "elf_File \<Rightarrow> Layout \<Rightarrow> elfFile" where
  "newElfFile elff lay =
     (let c32 = (Class elff = ELFCLASS32) in
      \<lparr>ff = elff, arch = fst (elfArches (Machine elff)), relClass = snd (elfArches (Machine elff)),
       elfLayout = lay,
       symSize = (if c32 then Sym32Size else Sym64Size),
       relSize = (if c32 then 4 + 4 else 8 + 8),
       relaSize = (if c32 then 4 + 4 + 4 else 8 + 8 + 8),
       relocatable = (Type elff = ET_REL),
       sections = [],
       shnToSection = replicate (length (Sections elff)) None,
       symTabs = [zeroSymTab, zeroSymTab]\<rparr>)"

definition openElf_tables :: "env \<Rightarrow> elfFile \<Rightarrow> (bool \<times> elfFile option \<times> error option) go" where
  "openElf_tables e f =
     (case sectionLoop 0 (Sections (ff f)) (f, [], []) of
        (f, relSections, relocatableSections) \<Rightarrow>
          (case relSectionLoop relocatableSections relSections f of
             Inl err \<Rightarrow> Return (True, None, Some err)
           | Inr f \<Rightarrow>
               (case symTabLoop e [0, 1] (f, 0) of
                  Panic m \<Rightarrow> Panic m
                | Return (Inl err) \<Rightarrow> Return (True, None, Some err)
                | Return (Inr (f, nSyms)) \<Rightarrow> Return (True, Some f, None))))"

definition openElf :: "env \<Rightarrow> ReaderAt \<Rightarrow> (bool \<times> elfFile option \<times> error option) go" where
  "openElf e r =
     (case r 4 0 of
        (buf, Some err) \<Rightarrow> Return (False, None, Some (External err))
      | (buf, None) \<Rightarrow>
          (let magic = take 4 (buf @ replicate 4 0) in
           if magic ! 0 \<noteq> 0x7f \<or> magic ! 1 \<noteq> 0x45 \<or> magic ! 2 \<noteq> 0x4c \<or> magic ! 3 \<noteq> 0x46
           then Return (False, None, None)
           else case NewFile e r of
                  Inl err \<Rightarrow> Return (True, None, Some (External err))
                | Inr elff \<Rightarrow>
                    if Class elff \<noteq> ELFCLASS32 \<and> Class elff \<noteq> ELFCLASS64
                    then Return (True, None, Some (UnknownClass (Class elff)))
                    else
                      (case NewLayout (BigEndian elff) (if Class elff = ELFCLASS32 then 4 else 8) of
                         Panic m \<Rightarrow> Panic m
                       | Return lay \<Rightarrow> openElf_tables e (newElfFile elff lay))))"

section \<open>Opening a file (obj/obj.go)\<close>

definition Open :: "env \<Rightarrow> ReaderAt \<Rightarrow> (elfFile option \<times> error option) go" where
  "Open e r =
     (case openElf e r of
        Panic m \<Rightarrow> Panic m
      | Return (isElf, f, err) \<Rightarrow>
          if isElf then Return (f, err) else Return (None, Some Unrecognized))"

section \<open>Resolving an address (obj/elf.go)\<close>

fun ResolveAddr_loop :: "elfSection list \<Rightarrow> u64 \<Rightarrow> elfSection option" where
  "ResolveAddr_loop [] addr = None"
| "ResolveAddr_loop (es # rest) addr =
     (if elf_Flags (elf es) AND SHF_ALLOC = 0 then ResolveAddr_loop rest addr
      else if Addr es \<le> addr \<and> addr - Addr es < Size es then Some es
      else ResolveAddr_loop rest addr)"

definition ResolveAddr :: "elfFile \<Rightarrow> u64 \<Rightarrow> elfSection option" where
  "ResolveAddr f addr = (if relocatable f then None else ResolveAddr_loop (sections f) addr)"

section \<open>Reading data (arch/layout.go, obj/data.go)\<close>

text \<open>
  \<^verbatim>\<open>Layout.Uint32\<close> indexes \<^verbatim>\<open>b[3]\<close> first, which panics on a shorter slice.
\<close>

definition Layout_Uint32 :: "Layout \<Rightarrow> u8 list \<Rightarrow> u32 go" where
  "Layout_Uint32 l b =
     (if length b < 4 then Panic ''index out of range''
      else if order l = 0 then
        Return (ucast (b ! 0) OR push_bit 8 (ucast (b ! 1)) OR push_bit 16 (ucast (b ! 2))
                  OR push_bit 24 (ucast (b ! 3)))
      else
        Return (ucast (b ! 3) OR push_bit 8 (ucast (b ! 2)) OR push_bit 16 (ucast (b ! 1))
                  OR push_bit 24 (ucast (b ! 0))))"

text \<open>
  A \<^verbatim>\<open>Reader\<close> is a \<^verbatim>\<open>Data\<close> and an offset \<^verbatim>\<open>p\<close> into its bytes. The methods
  move the offset; they return the reader with the value read.
\<close>

record Reader =
  rd_d :: Data
  rd_p :: int

definition NewReader :: "Data \<Rightarrow> Reader" where
  "NewReader dat = \<lparr>rd_d = dat, rd_p = 0\<rparr>"

definition Avail :: "Reader \<Rightarrow> int" where
  "Avail r = int (length (P (rd_d r))) - rd_p r"

definition Reader_Uint32 :: "Reader \<Rightarrow> (u32 \<times> Reader) go" where
  "Reader_Uint32 r =
     (let ofs = rd_p r; r' = r\<lparr>rd_p := ofs + 4\<rparr> in
      if ofs < 0 \<or> ofs + 4 > int (length (P (rd_d r))) then Panic ''slice bounds out of range''
      else case Layout_Uint32 (data_Layout (rd_d r)) (take 4 (drop (nat ofs) (P (rd_d r)))) of
             Panic m \<Rightarrow> Panic m
           | Return v \<Rightarrow> Return (v, r'))"

section \<open>Relocations (obj/reloc.go, obj/elfSym.go, obj/elfReloc.go)\<close>

text \<open>
  A \<^verbatim>\<open>Reloc\<close>. \<open>reloc_Type\<close> is the number \<^verbatim>\<open>n\<close> of its \<^verbatim>\<open>RelocType\<close>;
  \<open>Addend\<close> is an \<^verbatim>\<open>int64\<close>, read as a signed number by \<open>sint\<close>.
\<close>

record Reloc =
  reloc_Addr :: u64
  reloc_Type :: u32
  Symbol :: u32
  Addend :: u64

definition NoSym :: u32 where
  "NoSym = NOT 0"

definition lookup :: "elfSymTab \<Rightarrow> u32 \<Rightarrow> u32 \<times> bool" where
  "lookup s elfSym =
     (let symID = elfSym - 1 + tab_start s in
      if tab_start s \<le> symID \<and> symID < tab_end s then (symID, True) else (NoSym, False))"

definition makeRelocType :: "u32 \<Rightarrow> u32 \<Rightarrow> u32 go" where
  "makeRelocType cls v =
     (if v AND (push_bit 24 1 - 1) \<noteq> v then Panic ''relocation value too large to represent as a RelocType''
      else Return (push_bit 24 cls OR v))"

text \<open>\<^verbatim>\<open>elf.R_SYM32\<close> and \<^verbatim>\<open>elf.R_TYPE32\<close> of \<^verbatim>\<open>debug/elf\<close>.\<close>

definition R_SYM32 :: "u32 \<Rightarrow> u32" where
  "R_SYM32 info = drop_bit 8 info"

definition R_TYPE32 :: "u32 \<Rightarrow> u32" where
  "R_TYPE32 info = info AND 0xff"

text \<open>
  \<^verbatim>\<open>elfReadRela32\<close>: while at least 12 bytes remain, read the offset, the info word and
  the addend, and append the relocation. \<^verbatim>\<open>int64(add)\<close> converts the \<^verbatim>\<open>uint32\<close>
  addend, which is \<open>ucast\<close>; \<^verbatim>\<open>uint64(off)\<close> likewise.
\<close>

function elfReadRela32 :: "Reloc list \<Rightarrow> Reader \<Rightarrow> elfSymTab \<Rightarrow> u32 \<Rightarrow> (Reloc list \<times> Reader) go" where
  "elfReadRela32 relocs r symTab relCls =
     (if Avail r \<ge> 12 then
        (case Reader_Uint32 r of
           Panic m \<Rightarrow> Panic m
         | Return (off, r1) \<Rightarrow>
             (case Reader_Uint32 r1 of
                Panic m \<Rightarrow> Panic m
              | Return (info, r2) \<Rightarrow>
                  (let symID = fst (lookup symTab (R_SYM32 info));
                       typ = R_TYPE32 info
                   in case Reader_Uint32 r2 of
                        Panic m \<Rightarrow> Panic m
                      | Return (add, r3) \<Rightarrow>
                          (case makeRelocType relCls typ of
                             Panic m \<Rightarrow> Panic m
                           | Return t \<Rightarrow>
                               elfReadRela32
                                 (relocs @ [\<lparr>reloc_Addr = ucast off, reloc_Type = t,
                                             Symbol = symID, Addend = ucast add\<rparr>])
                                 r3 symTab relCls))))
      else Return (relocs, r))"
  by pat_completeness auto

lemma Reader_Uint32_Return:
  "Reader_Uint32 r = Return (v, r') \<Longrightarrow> rd_p r' = rd_p r + 4 \<and> rd_d r' = rd_d r"
  by (auto simp: Reader_Uint32_def Let_def split: if_splits go.splits)

termination elfReadRela32
proof (relation "measure (\<lambda>(relocs, r, symTab, relCls). nat (Avail r))", goal_cases)
  case 1
  show ?case by simp
next
  case (2 relocs r tab relCls x2 off r1 x2a info r2 symID ty x2b add r3 t)
  from 2 have "rd_p r3 = rd_p r + 12 \<and> rd_d r3 = rd_d r"
    by (auto dest!: Reader_Uint32_Return)
  with 2(1) show ?case by (simp add: Avail_def)
qed

text \<open>
  A \<^verbatim>\<open>RELA\<close> section of a 32-bit little-endian file with one entry: offset
  \<open>0x14\<close>, symbol 1, type 2, addend \<open>-4\<close> (the bytes \<^verbatim>\<open>fc ff ff ff\<close>).
\<close>

definition rela_bytes :: "u8 list" where
  "rela_bytes = [0x14, 0, 0, 0,  0x02, 0x01, 0, 0,  0xfc, 0xff, 0xff, 0xff]"

definition rela_data :: Data where
  "rela_data = \<lparr>data_Addr = 0, P = rela_bytes, data_Layout = \<lparr>order = 0, wordSize = 4\<rparr>\<rparr>"

definition rela_symTab :: elfSymTab where
  "rela_symTab = zeroSymTab\<lparr>tab_start := 0, tab_end := 8\<rparr>"

section \<open>Symbols and synthesized sizes (obj/sym.go, obj/size.go)\<close>

text \<open>
  A \<^verbatim>\<open>Sym\<close>. \<open>sym_Section\<close> is the pointer to the symbol's section (\<open>None\<close> is
  nil); the sections live in a store \<open>secs\<close>, so that two symbols are in the same section
  when the pointers are equal, as in the source. \<open>sym_f\<close> is the embedded \<^verbatim>\<open>SymFlags\<close>.
\<close>

record Sym =
  sym_Name :: string
  sym_Section :: "nat option"
  Value :: u64
  sym_Size :: u64
  Kind :: u8
  sym_f :: u8

definition SymSection :: u8 where
  "SymSection = 0x53"

definition symFlagLocal :: u8 where
  "symFlagLocal = push_bit 0 1"

definition symFlagSizeSynthesized :: u8 where
  "symFlagSizeSynthesized = push_bit 1 1"

definition SizeSynthesized :: "Sym \<Rightarrow> bool" where
  "SizeSynthesized s = (sym_f s AND symFlagSizeSynthesized \<noteq> 0)"

definition SetSizeSynthesized :: "bool \<Rightarrow> Sym \<Rightarrow> Sym" where
  "SetSizeSynthesized v s =
     (if v then s\<lparr>sym_f := sym_f s OR symFlagSizeSynthesized\<rparr>
      else s\<lparr>sym_f := sym_f s AND NOT symFlagSizeSynthesized\<rparr>)"

text \<open>
  The first loop of \<^verbatim>\<open>SynthesizeSizes\<close>: section symbols get their section's size, and
  the indices of the other symbols with data that are not past the end of their section are
  gathered in \<open>todo\<close>.
\<close>

definition gatherStep :: "(nat \<Rightarrow> Section) \<Rightarrow> nat \<Rightarrow> Sym list \<times> nat list \<Rightarrow> Sym list \<times> nat list" where
  "gatherStep secs i st =
     (let syms = fst st; todo = snd st; s = syms ! i in
      case sym_Section s of
        None \<Rightarrow> (syms, todo)
      | Some p \<Rightarrow>
          if Kind s = SymSection then
            (if Value s = Addr (secs p) \<and> sym_Size s = 0
             then (syms[i := SetSizeSynthesized True (s\<lparr>sym_Size := Size (secs p)\<rparr>)], todo)
             else (syms, todo))
          else if Value s > Addr (secs p) + Size (secs p) then (syms, todo)
          else (syms, todo @ [i]))"

text \<open>
  \<^verbatim>\<open>sort.Slice(todo, less)\<close>. Every entry of \<open>todo\<close> has a section, so \<open>todo_less\<close> (the function \<^verbatim>\<open>less\<close> given to \<^verbatim>\<open>sort.Slice\<close>)
  dereferences no nil pointer. \<^verbatim>\<open>sort.Slice\<close> sorts a slice of at most 12 elements by
  insertion, moving an element down while it is less than the one before it; this is the
  order modelled here (on longer slices elements that compare equal may end in another
  order).
\<close>

definition todo_less :: "(nat \<Rightarrow> Section) \<Rightarrow> Sym list \<Rightarrow> nat \<Rightarrow> nat \<Rightarrow> bool" where
  "todo_less secs syms a b =
     (let si = syms ! a; sj = syms ! b in
      if sym_Section si \<noteq> sym_Section sj then
        (case (sym_Section si, sym_Section sj) of
           (Some p, Some q) \<Rightarrow> ID (secs p) < ID (secs q)
         | _ \<Rightarrow> False)
      else Value si < Value sj)"

fun insertDown :: "('a \<Rightarrow> 'a \<Rightarrow> bool) \<Rightarrow> 'a \<Rightarrow> 'a list \<Rightarrow> 'a list" where
  "insertDown lt x [] = [x]"
| "insertDown lt x (y # ys) = (if lt x y then y # insertDown lt x ys else x # y # ys)"

text \<open>
  \<open>sortSlice\<close> keeps the sorted prefix reversed, so that the element before the one
  inserted is at its head.
\<close>

fun sortSlice_loop :: "('a \<Rightarrow> 'a \<Rightarrow> bool) \<Rightarrow> 'a list \<Rightarrow> 'a list \<Rightarrow> 'a list" where
  "sortSlice_loop lt pre [] = rev pre"
| "sortSlice_loop lt pre (x # xs) = sortSlice_loop lt (insertDown lt x pre) xs"

definition sortSlice :: "('a \<Rightarrow> 'a \<Rightarrow> bool) \<Rightarrow> 'a list \<Rightarrow> 'a list" where
  "sortSlice lt xs = sortSlice_loop lt [] xs"

text \<open>
  The inner loop that collects the group of \<^verbatim>\<open>todo[0]\<close>: it returns \<^verbatim>\<open>group\<close> and
  \<^verbatim>\<open>anyZero\<close>. The test inside the loop reads \<^verbatim>\<open>s1.Size\<close>.
\<close>

function groupLoop :: "Sym list \<Rightarrow> nat list \<Rightarrow> Sym \<Rightarrow> nat \<Rightarrow> bool \<Rightarrow> nat \<times> bool" where
  "groupLoop syms todo s1 grp anyZero =
     (if grp < length todo then
        (let s2 = syms ! (todo ! grp) in
         if Value s1 \<noteq> Value s2 \<or> sym_Section s1 \<noteq> sym_Section s2 then (grp, anyZero)
         else groupLoop syms todo s1 (grp + 1) (if sym_Size s1 = 0 then True else anyZero))
      else (grp, anyZero))"
  by pat_completeness auto
termination
  by (relation "measure (\<lambda>(syms, todo, s1, grp, anyZero). length todo - grp)") auto

declare groupLoop.simps [simp del]

lemma groupLoop_ge: "grp \<le> fst (groupLoop syms todo s1 grp anyZero)"
proof (induction syms todo s1 grp anyZero rule: groupLoop.induct)
  case (1 syms todo s1 grp anyZero)
  show ?case
  proof (cases "grp < length todo \<and> \<not> (Value s1 \<noteq> Value (syms ! (todo ! grp)) \<or>
                  sym_Section s1 \<noteq> sym_Section (syms ! (todo ! grp)))")
    case True
    then have "Suc grp \<le> fst (groupLoop syms todo s1 (grp + 1) (if sym_Size s1 = 0 then True else anyZero))"
      using "1.IH"[OF _ refl] by auto
    then show ?thesis using True by (subst groupLoop.simps) (simp add: Let_def)
  next
    case False
    then show ?thesis by (subst groupLoop.simps) (auto simp: Let_def)
  qed
qed

text \<open>Applying the size to the zero-sized symbols of the group.\<close>

definition applySize :: "u64 \<Rightarrow> nat \<Rightarrow> Sym list \<Rightarrow> Sym list" where
  "applySize sz symi syms =
     (if sym_Size (syms ! symi) = 0
      then syms[symi := SetSizeSynthesized True ((syms ! symi)\<lparr>sym_Size := sz\<rparr>)]
      else syms)"

text \<open>
  The loop \<^verbatim>\<open>for len(todo) != 0\<close>. \<^verbatim>\<open>s1.Section\<close> is dereferenced to cap the group at
  the end of its section.
\<close>

function assignLoop :: "(nat \<Rightarrow> Section) \<Rightarrow> Sym list \<Rightarrow> nat list \<Rightarrow> Sym list go" where
  "assignLoop secs syms todo =
     (if length todo \<noteq> 0 then
        (let s1 = syms ! (todo ! 0);
             ga = groupLoop syms todo s1 1 (sym_Size s1 = 0);
             grp = fst ga; anyZero = snd ga
         in if \<not> anyZero then assignLoop secs syms (drop grp todo)
            else
              (case sym_Section s1 of
                 None \<Rightarrow> Panic ''nil pointer dereference''
               | Some p \<Rightarrow>
                   (let sz = (if grp = length todo \<or> sym_Section s1 \<noteq> sym_Section (syms ! (todo ! grp))
                              then Addr (secs p) + Size (secs p) - Value s1
                              else Value (syms ! (todo ! grp)) - Value s1)
                    in assignLoop secs (fold (applySize sz) (take grp todo) syms) (drop grp todo))))
      else Return syms)"
  by pat_completeness auto
termination
proof (relation "measure (\<lambda>(secs, syms, todo). length todo)", goal_cases)
  case 1
  show ?case by simp
next
  case (2 secs syms todo s1 ga grp anyZero)
  then show ?case using groupLoop_ge[of 1 syms todo s1 "sym_Size s1 = 0"] by simp
next
  case (3 secs syms todo s1 ga grp anyZero p sz)
  then show ?case using groupLoop_ge[of 1 syms todo s1 "sym_Size s1 = 0"] by simp
qed

definition SynthesizeSizes :: "(nat \<Rightarrow> Section) \<Rightarrow> Sym list \<Rightarrow> Sym list go" where
  "SynthesizeSizes secs syms =
     (let st = fold (gatherStep secs) [0 ..< length syms] (syms, []);
          syms = fst st;
          todo = sortSlice (todo_less secs syms) (snd st)
      in assignLoop secs syms todo)"

text \<open>
  The third section of \<^verbatim>\<open>TestSynthesizeSizes\<close> and its symbols at address 1000, with
  the symbol that has a size listed before a symbol that has none.
\<close>

definition size_secs :: "nat \<Rightarrow> Section" where
  "size_secs p = \<lparr>Name = [], ID = 0, RawID = 0, Addr = 1000, Size = 100, flags = 0, mapped = False\<rparr>"

definition mkSym :: "u64 \<Rightarrow> u64 \<Rightarrow> Sym" where
  "mkSym v sz = \<lparr>sym_Name = [], sym_Section = Some 2, Value = v, sym_Size = sz, Kind = 0, sym_f = 0\<rparr>"

definition size_syms :: "Sym list" where
  "size_syms = [mkSym 1000 10, mkSym 1000 0, mkSym 1030 1]"

definition size_syms_test :: "Sym list" where
  "size_syms_test = [mkSym 1000 0, mkSym 1000 10, mkSym 1030 1]"

section \<open>A small executable, a truncated input and a failing reader\<close>

text \<open>
  A 64-bit executable with the reserved section 0, a \<^verbatim>\<open>.text\<close> section
  (\<^verbatim>\<open>PROGBITS\<close>, allocated and executable, not writable) and a \<^verbatim>\<open>.bss\<close> section
  (\<^verbatim>\<open>NOBITS\<close>, allocated and writable), and the same sections in a relocatable object.
\<close>

definition null_sect :: elf_Section where
  "null_sect = \<lparr>elf_Name = [], elf_Type = SHT_NULL, elf_Flags = 0,
                 elf_Addr = 0, elf_Size = 0, elf_Link = 0, elf_Info = 0\<rparr>"

definition text_sect :: elf_Section where
  "text_sect = \<lparr>elf_Name = ''.text'', elf_Type = SHT_PROGBITS, elf_Flags = SHF_ALLOC OR SHF_EXECINSTR,
                 elf_Addr = 0x1000, elf_Size = 0x100, elf_Link = 0, elf_Info = 0\<rparr>"

definition bss_sect :: elf_Section where
  "bss_sect = \<lparr>elf_Name = ''.bss'', elf_Type = SHT_NOBITS, elf_Flags = SHF_WRITE OR SHF_ALLOC,
                elf_Addr = 0x4000, elf_Size = 0x20, elf_Link = 0, elf_Info = 0\<rparr>"

definition exec_file :: elf_File where
  "exec_file = \<lparr>Class = ELFCLASS64, BigEndian = False, Type = 2, Machine = EM_X86_64,
                 Sections = [null_sect, text_sect, bss_sect]\<rparr>"

definition rel_file :: elf_File where
  "rel_file = exec_file\<lparr>Type := ET_REL\<rparr>"

definition exec_env :: env where
  "exec_env = \<lparr>NewFile = (\<lambda>r. Inr exec_file),
                sectionBytes = (\<lambda>es. Return (Inr (replicate (unat (elf_Size es)) 0))),
                readRelocs = (\<lambda>s. None)\<rparr>"

definition rel_env :: env where
  "rel_env = exec_env\<lparr>NewFile := (\<lambda>r. Inr rel_file)\<rparr>"

text \<open>A reader over an input that begins with the ELF magic, whose reads succeed.\<close>

definition elf_reader :: ReaderAt where
  "elf_reader n off = (if off = 0 \<and> n = 4 then (elf_magic, None) else (replicate n 0, None))"

text \<open>
  A reader over the same input whose read fails after it has stored the four bytes (an
  \<^verbatim>\<open>io.ReaderAt\<close> may report \<^verbatim>\<open>io.EOF\<close> together with a full read that ends at
  the end of the input), and the three-byte input \<^verbatim>\<open>AAA\<close> of \<^verbatim>\<open>TestOpenNonObject\<close>.
\<close>

definition eof_reader :: ReaderAt where
  "eof_reader n off = (elf_magic, Some ''EOF'')"

definition short_reader :: ReaderAt where
  "short_reader n off = ([0x41, 0x41, 0x41], Some ''EOF'')"

text \<open>
  The input of \<^verbatim>\<open>TestElfOpenCorrupted\<close>, the magic followed by the class byte 42:
  \<^verbatim>\<open>elf.NewFile\<close> rejects it with its own error.
\<close>

definition corrupt_env :: env where
  "corrupt_env = exec_env\<lparr>NewFile := (\<lambda>r. Inl ''unknown ELF class'')\<rparr>"

text \<open>
  A 32-bit executable for a machine that is not in \<^verbatim>\<open>elfArches\<close>, with a symbol table
  and its string table.
\<close>

definition symtab_sect :: elf_Section where
  "symtab_sect = \<lparr>elf_Name = ''.symtab'', elf_Type = SHT_SYMTAB, elf_Flags = 0,
                   elf_Addr = 0, elf_Size = 32, elf_Link = 2, elf_Info = 0\<rparr>"

definition strtab_sect :: elf_Section where
  "strtab_sect = \<lparr>elf_Name = ''.strtab'', elf_Type = SHT_STRTAB, elf_Flags = 0,
                   elf_Addr = 0, elf_Size = 8, elf_Link = 0, elf_Info = 0\<rparr>"

definition arm_file :: elf_File where
  "arm_file = \<lparr>Class = ELFCLASS32, BigEndian = False, Type = 2, Machine = EM_ARM,
                Sections = [null_sect, symtab_sect, strtab_sect]\<rparr>"

definition arm_env :: env where
  "arm_env = exec_env\<lparr>NewFile := (\<lambda>r. Inr arm_file)\<rparr>"

text \<open>The files that \<^verbatim>\<open>openElf\<close> makes of the executable and of the relocatable object.\<close>

definition opened :: "env \<Rightarrow> elfFile" where
  "opened e = (case openElf e elf_reader of
                 Return (isElf, Some f, err) \<Rightarrow> f
               | _ \<Rightarrow> newElfFile exec_file \<lparr>order = 0, wordSize = 8\<rparr>)"

section \<open>Notions of the specification\<close>

text \<open>
  A section contains an address when the address lies in \<open>[Addr, Addr + Size)\<close>, as
  numbers (no wrap-around).
\<close>

definition section_contains :: "'a Section_scheme \<Rightarrow> u64 \<Rightarrow> bool" where
  "section_contains s addr = (unat (Addr s) \<le> unat addr \<and> unat addr < unat (Addr s) + unat (Size s))"


text \<open>
  The invariant of the section table that \<^verbatim>\<open>openElf\<close> builds: a section is marked
  mapped exactly when the file is not relocatable and the section is allocated.
\<close>

definition mapped_ok :: "elfFile \<Rightarrow> bool" where
  "mapped_ok f = (\<forall>s \<in> set (sections f).
      Mapped s = (\<not> relocatable f \<and> elf_Flags (elf s) AND SHF_ALLOC \<noteq> 0))"

section \<open>The AVL tree (internal/imap/avl.go)\<close>

text \<open>
  Nodes live in a memory that maps addresses to nodes; a \<^verbatim>\<open>*avlNode\<close> is an address or
  nil (\<open>None\<close>). \<open>fresh\<close> is the next address that \<^verbatim>\<open>&avlNode{...}\<close> allocates; an
  address is never used twice, as for a pointer that is still held. \<open>val\<close> is the field
  \<^verbatim>\<open>value interface{}\<close>; \<open>None\<close> is the nil interface.

  A call that panics (a nil pointer is dereferenced) or that does not return has the value
  \<open>None\<close> in the option monad; a call that returns has the value \<open>Some\<close> of its
  results and of the memory it leaves.
\<close>

type_synonym ref = "nat option"

record 'v avlNode =
  key :: u64
  left :: ref
  right :: ref
  parent :: ref
  heightCache :: int
  high :: u64
  val :: "'v option"

record 'v avlTree =
  root :: ref
  mem :: "nat \<Rightarrow> 'v avlNode"
  fresh :: nat

definition upd :: "nat \<Rightarrow> ('v avlNode \<Rightarrow> 'v avlNode) \<Rightarrow> 'v avlTree \<Rightarrow> 'v avlTree" where
  "upd a g t = t\<lparr>mem := (mem t)(a := g (mem t a))\<rparr>"

text \<open>
  A \<^verbatim>\<open>**avlNode\<close> points to the root field of the tree or to the left or right field
  of a node.
\<close>

datatype slot = RootP | LeftP nat | RightP nat

fun load :: "slot \<Rightarrow> 'v avlTree \<Rightarrow> ref" where
  "load RootP t = root t"
| "load (LeftP a) t = left (mem t a)"
| "load (RightP a) t = right (mem t a)"

fun store :: "slot \<Rightarrow> ref \<Rightarrow> 'v avlTree \<Rightarrow> 'v avlTree" where
  "store RootP x t = t\<lparr>root := x\<rparr>"
| "store (LeftP a) x t = upd a (\<lambda>n. n\<lparr>left := x\<rparr>) t"
| "store (RightP a) x t = upd a (\<lambda>n. n\<lparr>right := x\<rparr>) t"

definition nodeP :: "nat \<Rightarrow> 'v avlTree \<Rightarrow> slot" where
  "nodeP n t =
     (case parent (mem t n) of
        None \<Rightarrow> RootP
      | Some p \<Rightarrow> if left (mem t p) = Some n then LeftP p else RightP p)"

text \<open>\<^verbatim>\<open>height\<close> accepts a nil receiver.\<close>

definition height :: "'v avlTree \<Rightarrow> ref \<Rightarrow> int" where
  "height t n = (case n of None \<Rightarrow> 0 | Some a \<Rightarrow> heightCache (mem t a))"

definition updateHeight :: "nat \<Rightarrow> 'v avlTree \<Rightarrow> 'v avlTree" where
  "updateHeight n t =
     (let l = height t (left (mem t n)); r = height t (right (mem t n)) in
      if l > r then upd n (\<lambda>x. x\<lparr>heightCache := l + 1\<rparr>) t
      else upd n (\<lambda>x. x\<lparr>heightCache := r + 1\<rparr>) t)"

definition balance :: "'v avlTree \<Rightarrow> nat \<Rightarrow> int" where
  "balance t n = height t (left (mem t n)) - height t (right (mem t n))"

text \<open>
  The tuple assignments evaluate their right-hand sides first and then assign from left to
  right.
\<close>

definition rotateLeft :: "slot \<Rightarrow> 'v avlTree \<Rightarrow> 'v avlTree option" where
  "rotateLeft np t =
     (case load np t of
        None \<Rightarrow> None
      | Some n \<Rightarrow>
          (case right (mem t n) of
             None \<Rightarrow> None
           | Some nr \<Rightarrow>
               (let nrl = left (mem t nr);
                    np0 = parent (mem t n);
                    t = upd n (\<lambda>x. x\<lparr>parent := Some nr\<rparr>) t;
                    t = upd n (\<lambda>x. x\<lparr>right := nrl\<rparr>) t;
                    t = upd nr (\<lambda>x. x\<lparr>parent := np0\<rparr>) t;
                    t = upd nr (\<lambda>x. x\<lparr>left := Some n\<rparr>) t;
                    t = (case nrl of None \<Rightarrow> t | Some c \<Rightarrow> upd c (\<lambda>x. x\<lparr>parent := Some n\<rparr>) t);
                    t = updateHeight n t;
                    t = updateHeight nr t
                in Some (store np (Some nr) t))))"

definition rotateRight :: "slot \<Rightarrow> 'v avlTree \<Rightarrow> 'v avlTree option" where
  "rotateRight np t =
     (case load np t of
        None \<Rightarrow> None
      | Some n \<Rightarrow>
          (case left (mem t n) of
             None \<Rightarrow> None
           | Some nl \<Rightarrow>
               (let nlr = right (mem t nl);
                    np0 = parent (mem t n);
                    t = upd n (\<lambda>x. x\<lparr>parent := Some nl\<rparr>) t;
                    t = upd n (\<lambda>x. x\<lparr>left := nlr\<rparr>) t;
                    t = upd nl (\<lambda>x. x\<lparr>parent := np0\<rparr>) t;
                    t = upd nl (\<lambda>x. x\<lparr>right := Some n\<rparr>) t;
                    t = (case nlr of None \<Rightarrow> t | Some c \<Rightarrow> upd c (\<lambda>x. x\<lparr>parent := Some n\<rparr>) t);
                    t = updateHeight n t;
                    t = updateHeight nl t
                in Some (store np (Some nl) t))))"

text \<open>
  One iteration of the loop of \<^verbatim>\<open>rebalance\<close> at a node, and the loop.
  \<^verbatim>\<open>node.left.balance()\<close> dereferences \<^verbatim>\<open>node.left\<close>.
\<close>

definition rebalance_step :: "nat \<Rightarrow> 'v avlTree \<Rightarrow> 'v avlTree option" where
  "rebalance_step node t =
     (let t = updateHeight node t; b = balance t node in
      if b > 1 then
        (case left (mem t node) of
           None \<Rightarrow> None
         | Some l \<Rightarrow>
             do {
               t \<leftarrow> (if balance t l < 0 then rotateLeft (LeftP node) t else Some t);
               rotateRight (nodeP node t) t
             })
      else if b < - 1 then
        (case right (mem t node) of
           None \<Rightarrow> None
         | Some r \<Rightarrow>
             do {
               t \<leftarrow> (if balance t r > 0 then rotateRight (RightP node) t else Some t);
               rotateLeft (nodeP node t) t
             })
      else Some t)"

partial_function (option) rebalance :: "ref \<Rightarrow> 'v avlTree \<Rightarrow> 'v avlTree option" where
  "rebalance node t =
     (case node of
        None \<Rightarrow> Some t
      | Some a \<Rightarrow>
          do {
            t \<leftarrow> rebalance_step a t;
            rebalance (parent (mem t a)) t
          })"

declare rebalance.simps [code]

text \<open>
  \<^verbatim>\<open>avlTree.Insert\<close>: the loop that finds the node with the key, or the insertion point
  \<open>np\<close> and its parent \<open>p\<close>.
\<close>

partial_function (option) insert_find ::
  "u64 \<Rightarrow> ref \<Rightarrow> slot \<Rightarrow> ref \<Rightarrow> 'v avlTree \<Rightarrow> (nat + ref \<times> slot) option" where
  "insert_find k p np n t =
     (case n of
        None \<Rightarrow> Some (Inr (p, np))
      | Some a \<Rightarrow>
          if k < key (mem t a) then insert_find k (Some a) (LeftP a) (left (mem t a)) t
          else if k > key (mem t a) then insert_find k (Some a) (RightP a) (right (mem t a)) t
          else Some (Inl a))"

declare insert_find.simps [code]

definition avlTree_Insert :: "u64 \<Rightarrow> 'v avlTree \<Rightarrow> (nat \<times> 'v avlTree) option" where
  "avlTree_Insert k t =
     do {
       r \<leftarrow> insert_find k None RootP (root t) t;
       case r of
         Inl a \<Rightarrow> Some (a, t)
       | Inr (p, np) \<Rightarrow>
           do {
             let n = fresh t;
             let t = t\<lparr>mem := (mem t)(n := \<lparr>key = k, left = None, right = None, parent = p,
                                             heightCache = 1, high = 0, val = None\<rparr>),
                       fresh := Suc n\<rparr>;
             let t = store np (Some n) t;
             t \<leftarrow> rebalance p t;
             Some (n, t)
           }
     }"

text \<open>\<^verbatim>\<open>avlTree.Delete\<close>: the loop that finds the in-order successor and its slot.\<close>

partial_function (option) find_succ :: "slot \<Rightarrow> nat \<Rightarrow> 'v avlTree \<Rightarrow> (slot \<times> nat) option" where
  "find_succ succP succ t =
     (case left (mem t succ) of
        None \<Rightarrow> Some (succP, succ)
      | Some l \<Rightarrow> find_succ (LeftP succ) l t)"

declare find_succ.simps [code]

text \<open>The transposition of \<open>node\<close> and its successor; it returns the new \<^verbatim>\<open>nodeP\<close>.\<close>

definition transpose_succ :: "nat \<Rightarrow> slot \<Rightarrow> slot \<Rightarrow> nat \<Rightarrow> 'v avlTree \<Rightarrow> slot \<times> 'v avlTree" where
  "transpose_succ node nodeP0 succP succ t =
     (let par = parent (mem t node); nl = left (mem t node); nr = right (mem t node);
          sp = parent (mem t succ); sr = right (mem t succ);
          t = store nodeP0 (Some succ) t;
          st = (if Some succ = right (mem t node)
                then (RightP succ, upd succ (\<lambda>x. x\<lparr>right := Some node\<rparr>) t)
                else (succP, store succP (Some node)
                               (upd node (\<lambda>x. x\<lparr>parent := sp\<rparr>)
                                 (upd succ (\<lambda>x. x\<lparr>right := nr\<rparr>) t))));
          t = snd st;
          t = upd node (\<lambda>x. x\<lparr>left := None\<rparr>) t;
          t = upd node (\<lambda>x. x\<lparr>right := sr\<rparr>) t;
          t = upd succ (\<lambda>x. x\<lparr>left := nl\<rparr>) t;
          t = upd succ (\<lambda>x. x\<lparr>parent := par\<rparr>) t;
          hn = heightCache (mem t node); hs = heightCache (mem t succ);
          t = upd node (\<lambda>x. x\<lparr>heightCache := hs\<rparr>) t;
          t = upd succ (\<lambda>x. x\<lparr>heightCache := hn\<rparr>) t;
          t = (case left (mem t succ) of None \<Rightarrow> t | Some c \<Rightarrow> upd c (\<lambda>x. x\<lparr>parent := Some succ\<rparr>) t);
          t = (case right (mem t succ) of None \<Rightarrow> t | Some c \<Rightarrow> upd c (\<lambda>x. x\<lparr>parent := Some succ\<rparr>) t);
          t = (case right (mem t node) of None \<Rightarrow> t | Some c \<Rightarrow> upd c (\<lambda>x. x\<lparr>parent := Some node\<rparr>) t)
      in (fst st, t))"

text \<open>Removing a node that has at most one child.\<close>

definition unlink :: "nat \<Rightarrow> slot \<Rightarrow> 'v avlTree \<Rightarrow> 'v avlTree" where
  "unlink node np t =
     (if left (mem t node) = None then
        (let t = store np (right (mem t node)) t in
         case right (mem t node) of
           None \<Rightarrow> t
         | Some c \<Rightarrow> upd c (\<lambda>x. x\<lparr>parent := parent (mem t node)\<rparr>) t)
      else if right (mem t node) = None then
        (let t = store np (left (mem t node)) t in
         case left (mem t node) of
           None \<Rightarrow> t
         | Some c \<Rightarrow> upd c (\<lambda>x. x\<lparr>parent := parent (mem t node)\<rparr>) t)
      else t)"

definition avlTree_Delete :: "nat \<Rightarrow> 'v avlTree \<Rightarrow> 'v avlTree option" where
  "avlTree_Delete node t =
     do {
       let nodeP0 = nodeP node t;
       (np, t) \<leftarrow>
         (if left (mem t node) \<noteq> None \<and> right (mem t node) \<noteq> None then
            do {
              r \<leftarrow> right (mem t node);
              (succP, succ) \<leftarrow> find_succ (RightP node) r t;
              Some (transpose_succ node nodeP0 succP succ t)
            }
          else Some (nodeP0, t));
       let t = unlink node np t;
       rebalance (Some node) t
     }"

text \<open>\<^verbatim>\<open>avlTree.Search\<close> and \<^verbatim>\<open>avlNode.Next\<close>.\<close>

partial_function (option) search_loop ::
  "('v avlNode \<Rightarrow> bool) \<Rightarrow> ref \<Rightarrow> ref \<Rightarrow> 'v avlTree \<Rightarrow> ref option" where
  "search_loop pred best n t =
     (case n of
        None \<Rightarrow> Some best
      | Some a \<Rightarrow>
          if pred (mem t a) then search_loop pred (Some a) (left (mem t a)) t
          else search_loop pred best (right (mem t a)) t)"

declare search_loop.simps [code]

definition Search :: "('v avlNode \<Rightarrow> bool) \<Rightarrow> 'v avlTree \<Rightarrow> ref option" where
  "Search pred t = search_loop pred None (root t) t"

partial_function (option) next_up :: "nat \<Rightarrow> 'v avlTree \<Rightarrow> ref option" where
  "next_up n t =
     (case parent (mem t n) of
        None \<Rightarrow> Some None
      | Some p \<Rightarrow> if right (mem t p) = Some n then next_up p t else Some (Some p))"

declare next_up.simps [code]

partial_function (option) next_down :: "nat \<Rightarrow> 'v avlTree \<Rightarrow> ref option" where
  "next_down n t =
     (case left (mem t n) of
        None \<Rightarrow> Some (Some n)
      | Some l \<Rightarrow> next_down l t)"

declare next_down.simps [code]

definition Next :: "nat \<Rightarrow> 'v avlTree \<Rightarrow> ref option" where
  "Next n t =
     (case right (mem t n) of
        None \<Rightarrow> next_up n t
      | Some r \<Rightarrow> next_down r t)"

definition emptyTree :: "'v avlTree" where
  "emptyTree = \<lparr>root = None,
                mem = (\<lambda>a. \<lparr>key = 0, left = None, right = None, parent = None, heightCache = 0,
                             high = 0, val = None\<rparr>),
                fresh = 0\<rparr>"

section \<open>The tree that the memory holds\<close>

text \<open>
  The shape of a tree is a binary tree of addresses. \<open>linked m par sh\<close> says that the
  memory \<open>m\<close> holds the shape \<open>sh\<close> below the parent \<open>par\<close>: the left and right
  fields of every node point to the roots of its subtrees and its parent field points to its
  parent. This is the walk of \<^verbatim>\<open>check\<close> in the test of the tree.
\<close>

datatype shape = Lf | Br shape nat shape

fun rt :: "shape \<Rightarrow> ref" where
  "rt Lf = None"
| "rt (Br l a r) = Some a"

fun nodes :: "shape \<Rightarrow> nat list" where
  "nodes Lf = []"
| "nodes (Br l a r) = nodes l @ a # nodes r"

fun ht :: "shape \<Rightarrow> int" where
  "ht Lf = 0"
| "ht (Br l a r) = 1 + max (ht l) (ht r)"

fun linked :: "(nat \<Rightarrow> 'v avlNode) \<Rightarrow> ref \<Rightarrow> shape \<Rightarrow> bool" where
  "linked m par Lf = True"
| "linked m par (Br l a r) =
     (left (m a) = rt l \<and> right (m a) = rt r \<and> parent (m a) = par \<and>
      linked m (Some a) l \<and> linked m (Some a) r)"

text \<open>Every cached height is one more than the larger height of the children.\<close>

fun cached :: "(nat \<Rightarrow> 'v avlNode) \<Rightarrow> shape \<Rightarrow> bool" where
  "cached m Lf = True"
| "cached m (Br l a r) =
     (cached m l \<and> cached m r \<and> heightCache (m a) = 1 + max (ht l) (ht r))"

text \<open>At every node the heights of the children differ by at most one.\<close>

fun balanced :: "shape \<Rightarrow> bool" where
  "balanced Lf = True"
| "balanced (Br l a r) = (balanced l \<and> balanced r \<and> \<bar>ht l - ht r\<bar> \<le> 1)"

text \<open>
  \<open>tree_of t sh\<close>: the tree \<open>t\<close> is the shape \<open>sh\<close>, no address occurs twice in it,
  and its addresses have been allocated.
\<close>

definition tree_of :: "'v avlTree \<Rightarrow> shape \<Rightarrow> bool" where
  "tree_of t sh =
     (root t = rt sh \<and> linked (mem t) None sh \<and> distinct (nodes sh) \<and>
      (\<forall>a \<in> set (nodes sh). a < fresh t))"

definition keys_sorted :: "'v avlTree \<Rightarrow> shape \<Rightarrow> bool" where
  "keys_sorted t sh = sorted_wrt (<) (map (\<lambda>a. key (mem t a)) (nodes sh))"

text \<open>The invariant of the AVL tree.\<close>

definition avl_inv :: "'v avlTree \<Rightarrow> bool" where
  "avl_inv t =
     (\<exists>sh. tree_of t sh \<and> cached (mem t) sh \<and> balanced sh \<and> keys_sorted t sh)"

text \<open>
  A position in a shape: the frames from a subtree up to the root, each with the direction
  taken, the node and the shape of the sibling.
\<close>

datatype dir = L | R

type_synonym ctx = "(dir \<times> nat \<times> shape) list"

fun plug :: "shape \<Rightarrow> ctx \<Rightarrow> shape" where
  "plug sh [] = sh"
| "plug sh ((L, p, s) # c) = plug (Br sh p s) c"
| "plug sh ((R, p, s) # c) = plug (Br s p sh) c"

fun ctx_top :: "ctx \<Rightarrow> ref" where
  "ctx_top [] = None"
| "ctx_top ((d, p, s) # c) = Some p"

fun slot_of :: "ctx \<Rightarrow> slot" where
  "slot_of [] = RootP"
| "slot_of ((L, p, s) # c) = LeftP p"
| "slot_of ((R, p, s) # c) = RightP p"

fun ctx_nodes :: "ctx \<Rightarrow> nat set" where
  "ctx_nodes [] = {}"
| "ctx_nodes ((d, p, s) # c) = insert p (set (nodes s)) \<union> ctx_nodes c"

fun ctx_distinct :: "ctx \<Rightarrow> bool" where
  "ctx_distinct [] = True"
| "ctx_distinct ((d, p, s) # c) =
     (distinct (nodes s) \<and> p \<notin> set (nodes s) \<and> insert p (set (nodes s)) \<inter> ctx_nodes c = {} \<and>
      ctx_distinct c)"

fun nodes_before :: "ctx \<Rightarrow> nat list" where
  "nodes_before [] = []"
| "nodes_before ((L, p, s) # c) = nodes_before c"
| "nodes_before ((R, p, s) # c) = nodes_before c @ nodes s @ [p]"

fun nodes_after :: "ctx \<Rightarrow> nat list" where
  "nodes_after [] = []"
| "nodes_after ((L, p, s) # c) = p # nodes s @ nodes_after c"
| "nodes_after ((R, p, s) # c) = nodes_after c"

text \<open>\<open>path t c x\<close>: the memory holds the frames of \<open>c\<close>, with \<open>x\<close> in the hole.\<close>

fun path :: "'v avlTree \<Rightarrow> ctx \<Rightarrow> ref \<Rightarrow> bool" where
  "path t [] x = (root t = x)"
| "path t ((L, p, s) # c) x =
     (left (mem t p) = x \<and> right (mem t p) = rt s \<and> linked (mem t) (Some p) s \<and>
      parent (mem t p) = ctx_top c \<and> path t c (Some p))"
| "path t ((R, p, s) # c) x =
     (right (mem t p) = x \<and> left (mem t p) = rt s \<and> linked (mem t) (Some p) s \<and>
      parent (mem t p) = ctx_top c \<and> path t c (Some p))"

text \<open>
  \<open>ctx_ok m H c\<close>: the siblings along \<open>c\<close> are AVL trees, and with a subtree of height
  \<open>H\<close> in the hole every node of the path is balanced.
\<close>

fun ctx_ok :: "(nat \<Rightarrow> 'v avlNode) \<Rightarrow> int \<Rightarrow> ctx \<Rightarrow> bool" where
  "ctx_ok m H [] = True"
| "ctx_ok m H ((d, p, s) # c) =
     (cached m s \<and> balanced s \<and> \<bar>H - ht s\<bar> \<le> 1 \<and> ctx_ok m (1 + max H (ht s)) c)"

text \<open>The fields other than the links and the cached height.\<close>

definition same_data :: "'v avlTree \<Rightarrow> 'v avlTree \<Rightarrow> bool" where
  "same_data t t' =
     (fresh t' = fresh t \<and>
      (\<forall>a. key (mem t' a) = key (mem t a) \<and> high (mem t' a) = high (mem t a) \<and>
           val (mem t' a) = val (mem t a)))"

section \<open>Properties of the ELF backend\<close>

lemmas consts_defs = SHT_NULL_def SHT_PROGBITS_def SHT_SYMTAB_def SHT_STRTAB_def SHT_RELA_def SHT_NOBITS_def
  SHT_REL_def SHT_DYNSYM_def SHT_LOPROC_def SHF_WRITE_def SHF_ALLOC_def SHF_EXECINSTR_def ELFCLASS32_def
  ELFCLASS64_def ET_REL_def EM_386_def EM_X86_64_def EM_ARM_def Sym32Size_def Sym64Size_def
  sectionFlagReadOnly_def sectionFlagZeroInitialized_def rcUnknown_def rcElfX86_64_def rcElf386_def

lemmas ex_defs = null_sect_def text_sect_def bss_sect_def exec_file_def rel_file_def exec_env_def rel_env_def
  elf_reader_def eof_reader_def short_reader_def elf_magic_def corrupt_env_def arm_env_def arm_file_def
  symtab_sect_def strtab_sect_def

lemmas open_defs = openElf_def openElf_tables_def newElfFile_def sectionStep_def Open_def NewLayout_def
  elfArches_def newSection_def SetMapped_def SetReadOnly_def setSymTabSection_def
  SetZeroInitialized_def canHaveRelocs_def symTabStep_def zeroSymTab_def zeroData_def Let_def
  elfSectionData_def sectionRelocs_def lookupShn_def AMD64_def I386_def

lemma opened_exec: "openElf exec_env elf_reader = Return (True, Some (opened exec_env), None)"
  by (simp add: opened_def consts_defs ex_defs open_defs)

lemma opened_rel: "openElf rel_env elf_reader = Return (True, Some (opened rel_env), None)"
  by (simp add: opened_def consts_defs ex_defs open_defs)

subsection \<open>The flags set at open\<close>

lemma ZeroInitialize_newSection:
  "ZeroInitialize (newSection f i es) = (elf_Flags es AND SHF_WRITE = 0)"
  by (simp add: ZeroInitialize_def newSection_def SetMapped_def SetReadOnly_def
        SetZeroInitialized_def sectionFlagReadOnly_def sectionFlagZeroInitialized_def Let_def)

text \<open>
  C4. The claim is that \<^verbatim>\<open>ZeroInitialize()\<close> is true exactly for the \<^verbatim>\<open>NOBITS\<close>
  sections of an opened file. \<^verbatim>\<open>ZeroInitialize\<close> tests the read-only bit: in the
  executable opened here it is true for \<^verbatim>\<open>.text\<close>, which is \<^verbatim>\<open>PROGBITS\<close> and not
  writable, and false for \<^verbatim>\<open>.bss\<close>, which is \<^verbatim>\<open>NOBITS\<close> and writable.
\<close>

theorem ZeroInitialize_reports_ReadOnly:
  "(case openElf exec_env elf_reader of
      Return (True, Some f, None) \<Rightarrow>
        map (\<lambda>s. (Name s, ZeroInitialize s, elf_Type (elf s) = SHT_NOBITS)) (sections f) =
          [(''.text'', True, False), (''.bss'', False, True)]
    | _ \<Rightarrow> False)"
  by (simp add: consts_defs ex_defs open_defs ZeroInitialize_def)

theorem ZeroInitialize_reports_ReadOnly_witness:
  "openElf exec_env elf_reader = Return (True, Some (opened exec_env), None) \<and>
   map (\<lambda>s. (Name s, ZeroInitialize s, elf_Type (elf s) = SHT_NOBITS)) (sections (opened exec_env)) =
     [(''.text'', True, False), (''.bss'', False, True)]"
  using ZeroInitialize_reports_ReadOnly opened_exec by simp

subsection \<open>Resolving addresses\<close>

lemma Mapped_newSection:
  "Mapped (newSection f i es) = (\<not> relocatable f \<and> elf_Flags es AND SHF_ALLOC \<noteq> 0)"
  by (simp add: newSection_def Mapped_def SetMapped_def SetReadOnly_def SetZeroInitialized_def Let_def)

lemma elf_newSection: "elf (newSection f i es) = es"
  by (simp add: newSection_def SetMapped_def SetReadOnly_def SetZeroInitialized_def Let_def)

lemma setSymTabSection_simps:
  "sections (setSymTabSection i es f) = sections f" "relocatable (setSymTabSection i es f) = relocatable f"
  by (simp_all add: setSymTabSection_def)

lemma sectionStep_mapped_ok:
  "mapped_ok (fst st) \<Longrightarrow> mapped_ok (fst (sectionStep i x st))"
  by (cases st) (auto simp: sectionStep_def Let_def mapped_ok_def setSymTabSection_simps
        Mapped_newSection elf_newSection)

lemma sectionLoop_mapped_ok:
  "mapped_ok (fst st) \<Longrightarrow> mapped_ok (fst (sectionLoop i ss st))"
  by (induction i ss st rule: sectionLoop.induct) (simp_all add: sectionStep_mapped_ok)

lemma updSection_mapped_ok:
  assumes "mapped_ok f" and g: "\<And>s. Mapped (g s) = Mapped s \<and> elf (g s) = elf s"
  shows "mapped_ok (updSection i g f)"
proof -
  have "Mapped s = (\<not> relocatable f \<and> elf_Flags (elf s) AND SHF_ALLOC \<noteq> 0)"
    if "s \<in> set ((sections f)[i := g (sections f ! i)])" for s
  proof (cases "i < length (sections f)")
    case True
    from that have "s = g (sections f ! i) \<or> s \<in> set (sections f)"
      using set_update_subset_insert[of "sections f" i "g (sections f ! i)"] by auto
    moreover have "sections f ! i \<in> set (sections f)" using True by simp
    ultimately show ?thesis using assms(1) g unfolding mapped_ok_def by metis
  next
    case False
    then show ?thesis using that assms(1) unfolding mapped_ok_def by (simp add: list_update_beyond)
  qed
  then show ?thesis by (simp add: mapped_ok_def updSection_def)
qed

lemma fold_updSection_mapped_ok:
  "mapped_ok f \<Longrightarrow> (\<And>s. Mapped (g s) = Mapped s \<and> elf (g s) = elf s) \<Longrightarrow>
   mapped_ok (fold (\<lambda>ls. updSection ls g) xs f)"
  by (induction xs arbitrary: f) (simp_all add: updSection_mapped_ok)

lemma relSectionStep_mapped_ok:
  "mapped_ok f \<Longrightarrow> relSectionStep rls es f = Inr f' \<Longrightarrow> mapped_ok f'"
  unfolding relSectionStep_def Let_def
  by (auto split: if_splits option.splits sum.splits
       intro!: updSection_mapped_ok fold_updSection_mapped_ok simp: Mapped_def)

lemma relSectionLoop_mapped_ok:
  "mapped_ok f \<Longrightarrow> relSectionLoop rls rs f = Inr f' \<Longrightarrow> mapped_ok f'"
  by (induction rs arbitrary: f) (auto split: sum.splits dest: relSectionStep_mapped_ok)

lemma symTabStep_mapped_ok:
  "mapped_ok (fst st) \<Longrightarrow> symTabStep e i st = Return (Inr st') \<Longrightarrow> mapped_ok (fst st')"
  unfolding symTabStep_def Let_def
  by (auto split: if_splits option.splits sum.splits go.splits prod.splits simp: mapped_ok_def)

lemma symTabLoop_mapped_ok:
  "mapped_ok (fst st) \<Longrightarrow> symTabLoop e is st = Return (Inr st') \<Longrightarrow> mapped_ok (fst st')"
  by (induction "is" arbitrary: st) (auto split: sum.splits go.splits dest: symTabStep_mapped_ok)

lemma openElf_tables_mapped_ok:
  assumes "openElf_tables e f0 = Return (isElf, Some f, err)" and "sections f0 = []"
  shows "mapped_ok f"
proof -
  obtain f1 rs rls where sl: "sectionLoop 0 (Sections (ff f0)) (f0, [], []) = (f1, rs, rls)"
    by (cases "sectionLoop 0 (Sections (ff f0)) (f0, [], [])") auto
  from assms(1) sl obtain f2 where rl: "relSectionLoop rls rs f1 = Inr f2"
    unfolding openElf_tables_def by (auto split: sum.splits)
  from assms(1) sl rl obtain n where tl: "symTabLoop e [0, 1] (f2, 0) = Return (Inr (f, n))"
    unfolding openElf_tables_def by (auto split: sum.splits go.splits simp del: symTabLoop.simps)
  have "mapped_ok f0" using assms(2) by (simp add: mapped_ok_def)
  then have "mapped_ok f1" using sectionLoop_mapped_ok[of "(f0, [], [])"] sl
    by (metis fst_conv)
  then have "mapped_ok f2" using rl by (rule relSectionLoop_mapped_ok)
  then show ?thesis using symTabLoop_mapped_ok[OF _ tl] by simp
qed

lemma openElf_mapped_ok:
  assumes "openElf e r = Return (isElf, Some f, err)"
  shows "mapped_ok f"
proof -
  from assms obtain elff lay where "openElf_tables e (newElfFile elff lay) = Return (isElf, Some f, err)"
    unfolding openElf_def Let_def
    by (auto split: prod.splits option.splits if_splits sum.splits go.splits)
  then show ?thesis by (rule openElf_tables_mapped_ok) (simp add: newElfFile_def Let_def)
qed

lemma contains_iff:
  "(a \<le> addr \<and> addr - a < sz) = (unat a \<le> unat addr \<and> unat addr < unat a + unat (sz::u64))"
  by (auto simp: word_le_nat_alt word_less_nat_alt unat_sub)

lemma ResolveAddr_loop_Some:
  "ResolveAddr_loop ss addr = Some s \<Longrightarrow>
     s \<in> set ss \<and> elf_Flags (elf s) AND SHF_ALLOC \<noteq> 0 \<and> section_contains s addr"
  by (induction ss) (auto split: if_splits simp: section_contains_def contains_iff)

lemma ResolveAddr_loop_None:
  "ResolveAddr_loop ss addr = None \<Longrightarrow> s \<in> set ss \<Longrightarrow> elf_Flags (elf s) AND SHF_ALLOC \<noteq> 0 \<Longrightarrow>
     \<not> section_contains s addr"
  by (induction ss) (auto split: if_splits simp: section_contains_def contains_iff)

text \<open>
  C7. For a file that \<^verbatim>\<open>openElf\<close> returns and any address: \<^verbatim>\<open>ResolveAddr\<close> returns
  none when the file is relocatable; otherwise it returns a section of the file that is
  marked mapped and contains the address when there is such a section, and none when no
  mapped section contains the address.
\<close>

theorem ResolveAddr_mapped:
  assumes "openElf e r = Return (isElf, Some f, err)"
  shows "(relocatable f \<longrightarrow> ResolveAddr f addr = None) \<and>
         (\<not> relocatable f \<longrightarrow>
            (case ResolveAddr f addr of
               Some s \<Rightarrow> s \<in> set (sections f) \<and> Mapped s \<and> section_contains s addr
             | None \<Rightarrow> \<not> (\<exists>s \<in> set (sections f). Mapped s \<and> section_contains s addr)))"
proof -
  have ok: "mapped_ok f" using assms by (rule openElf_mapped_ok)
  show ?thesis
  proof (cases "relocatable f")
    case True
    then show ?thesis by (simp add: ResolveAddr_def)
  next
    case False
    show ?thesis
    proof (cases "ResolveAddr_loop (sections f) addr")
      case None
      then show ?thesis using False ok ResolveAddr_loop_None[OF None]
        by (auto simp: ResolveAddr_def mapped_ok_def)
    next
      case (Some s)
      then show ?thesis using False ok ResolveAddr_loop_Some[OF Some]
        by (auto simp: ResolveAddr_def mapped_ok_def)
    qed
  qed
qed

theorem ResolveAddr_mapped_witness:
  "openElf exec_env elf_reader = Return (True, Some (opened exec_env), None) \<and>
   \<not> relocatable (opened exec_env) \<and>
   (case ResolveAddr (opened exec_env) 0x1010 of
      Some s \<Rightarrow> s \<in> set (sections (opened exec_env)) \<and> Mapped s \<and> section_contains s 0x1010
    | None \<Rightarrow> False) \<and>
   ResolveAddr (opened exec_env) 0x9000 = None \<and>
   openElf rel_env elf_reader = Return (True, Some (opened rel_env), None) \<and>
   relocatable (opened rel_env) \<and> ResolveAddr (opened rel_env) 0x1010 = None"
proof -
  have e: "\<not> relocatable (opened exec_env) \<and> ResolveAddr (opened exec_env) 0x1010 \<noteq> None \<and>
           ResolveAddr (opened exec_env) 0x9000 = None \<and> relocatable (opened rel_env)"
    by (simp add: opened_def consts_defs ex_defs open_defs ResolveAddr_def)
  from ResolveAddr_mapped[OF opened_exec, of "0x1010"] e
  have "case ResolveAddr (opened exec_env) 0x1010 of
      Some s \<Rightarrow> s \<in> set (sections (opened exec_env)) \<and> Mapped s \<and> section_contains s 0x1010
    | None \<Rightarrow> False"
    by (auto split: option.splits)
  moreover from ResolveAddr_mapped[OF opened_rel, of "0x1010"] e
  have "ResolveAddr (opened rel_env) 0x1010 = None" by simp
  ultimately show ?thesis using e opened_exec opened_rel by simp
qed

subsection \<open>Recognising the format\<close>
















section \<open>Properties of the relocation reader\<close>

lemma sint_ucast_u32: "sint (ucast (a :: u32) :: u64) = uint a"
proof -
  have "uint a < 2 ^ 32" using uint_lt2p[of a] by simp
  then have b: "uint a < 2 ^ 63" by simp
  have "uint (ucast a :: u64) = uint a"
    by (simp add: uint_up_ucast is_up)
  then have "sint (ucast a :: u64) = signed_take_bit 63 (uint a)"
    by (simp add: sint_uint)
  also have "\<dots> = uint a"
    using b by (intro signed_take_bit_int_eq_self) (auto intro: order_trans[of _ 0])
  finally show ?thesis .
qed

lemma sint_ucast_u32': "0 \<le> sint (ucast (a :: u32) :: u64)"
  by (simp add: sint_ucast_u32)

lemma elfReadRela32_Addend:
  "elfReadRela32 relocs r tab cls = Return (out, r') \<Longrightarrow>
   (\<forall>x \<in> set relocs. 0 \<le> sint (Addend x)) \<Longrightarrow> (\<forall>x \<in> set out. 0 \<le> sint (Addend x))"
proof (induction relocs r tab cls rule: elfReadRela32.induct)
  case (1 relocs r tab cls)
  note eq = elfReadRela32.simps[of relocs r tab cls]
  show ?case
  proof (cases "Avail r \<ge> 12")
    case False
    with "1.prems" eq show ?thesis by simp
  next
    case True
    obtain off r1 where a: "Reader_Uint32 r = Return (off, r1)"
      using "1.prems"(1) True eq by (cases "Reader_Uint32 r") auto
    obtain info r2 where b: "Reader_Uint32 r1 = Return (info, r2)"
      using "1.prems"(1) True eq a by (cases "Reader_Uint32 r1") auto
    obtain add r3 where c: "Reader_Uint32 r2 = Return (add, r3)"
      using "1.prems"(1) True eq a b by (cases "Reader_Uint32 r2") (auto simp: Let_def)
    obtain t where d: "makeRelocType cls (R_TYPE32 info) = Return t"
      using "1.prems"(1) True eq a b c by (cases "makeRelocType cls (R_TYPE32 info)") (auto simp: Let_def)
    have e: "elfReadRela32 (relocs @ [\<lparr>reloc_Addr = ucast off, reloc_Type = t,
              Symbol = fst (lookup tab (R_SYM32 info)), Addend = ucast add\<rparr>]) r3 tab cls = Return (out, r')"
      using "1.prems"(1) True eq a b c d by (simp add: Let_def)
    have f: "\<forall>x \<in> set (relocs @ [\<lparr>reloc_Addr = ucast off, reloc_Type = t,
              Symbol = fst (lookup tab (R_SYM32 info)), Addend = ucast add\<rparr>]). 0 \<le> sint (Addend x)"
      using "1.prems"(2) by (simp add: sint_ucast_u32')
    show ?thesis
      by (rule "1.IH"[OF True a refl b refl refl refl c refl d e f])
  qed
qed

lemma sint_scast_minus_4: "sint (scast (0xfffffffc :: u32) :: u64) = - 4"
  by simp

text \<open>
  C2. The claim is that the 32-bit addend of a \<^verbatim>\<open>RELA\<close> entry of a 32-bit file is
  sign-extended, so that the bytes \<^verbatim>\<open>fc ff ff ff\<close> give the addend \<open>-4\<close>.
  \<^verbatim>\<open>elfReadRela32\<close> reads the addend with \<^verbatim>\<open>r.Uint32()\<close> and converts it with
  \<^verbatim>\<open>int64(add)\<close>, which zero-extends: that entry decodes to the addend
  \<open>4294967292\<close>.
\<close>

theorem elfReadRela32_zero_extends:
  "elfReadRela32 [] (NewReader rela_data) rela_symTab rcElf386 =
     Return ([\<lparr>reloc_Addr = 0x14, reloc_Type = 0x2000002, Symbol = 0, Addend = 0xfffffffc\<rparr>],
             \<lparr>rd_d = rela_data, rd_p = 12\<rparr>) \<and>
   sint (0xfffffffc :: u64) = 4294967292"
  by (simp add: NewReader_def rela_data_def rela_bytes_def rela_symTab_def zeroSymTab_def rcElf386_def
       Avail_def Reader_Uint32_def Layout_Uint32_def lookup_def R_SYM32_def R_TYPE32_def makeRelocType_def
       Let_def NoSym_def)

theorem elfReadRela32_zero_extends_witness:
  "(case elfReadRela32 [] (NewReader rela_data) rela_symTab rcElf386 of
      Return (rs, r) \<Rightarrow> map (\<lambda>x. sint (Addend x)) rs = [4294967292]
    | Panic m \<Rightarrow> False)"
  using elfReadRela32_zero_extends by simp

section \<open>Properties of the synthesized sizes\<close>

lemmas size_defs = SynthesizeSizes_def gatherStep_def todo_less_def sortSlice_def applySize_def
  SetSizeSynthesized_def SymSection_def symFlagSizeSynthesized_def size_secs_def mkSym_def size_syms_def
  size_syms_test_def Let_def SizeSynthesized_def groupLoop.simps

lemma upt_0_3: "[0..<3] = [0, 1, 2]"
  by (simp add: upt_rec)

text \<open>\<^verbatim>\<open>anyZero\<close> only ever tells whether the first symbol of the group has size 0.\<close>

lemma groupLoop_anyZero:
  "anyZero = (sym_Size s1 = 0) \<Longrightarrow> snd (groupLoop syms todo s1 grp anyZero) = (sym_Size s1 = 0)"
proof (induction syms todo s1 grp anyZero rule: groupLoop.induct)
  case (1 syms todo s1 grp anyZero)
  show ?case
  proof (cases "grp < length todo \<and> \<not> (Value s1 \<noteq> Value (syms ! (todo ! grp)) \<or>
                  sym_Section s1 \<noteq> sym_Section (syms ! (todo ! grp)))")
    case True
    then have "snd (groupLoop syms todo s1 (grp + 1) (if sym_Size s1 = 0 then True else anyZero))
                 = (sym_Size s1 = 0)"
      using "1.IH"[OF _ refl] "1.prems" by auto
    then show ?thesis using True by (subst groupLoop.simps) (simp add: Let_def)
  next
    case False
    then show ?thesis using "1.prems" by (subst groupLoop.simps) (auto simp: Let_def)
  qed
qed

text \<open>
  C3. The claim is that in a group of symbols with the same section and value, if any
  member has size 0 then every zero-sized member gets the group's extent. Three symbols of
  one section \<open>[1000, 1100)\<close>: two at 1000 with sizes 10 and 0, one at 1030 with size 1.
  The group at 1000 has a zero-sized member and its extent is 30, but
  \<^verbatim>\<open>SynthesizeSizes\<close> changes nothing: the loop over the group tests \<^verbatim>\<open>s1.Size\<close>
  again instead of \<^verbatim>\<open>s2.Size\<close>, so \<^verbatim>\<open>anyZero\<close> stays false when the first member
  has a size. With the zero-sized symbol first (the order of \<^verbatim>\<open>TestSynthesizeSizes\<close>) it
  gets the size 30.
\<close>

theorem SynthesizeSizes_skips_group:
  "SynthesizeSizes size_secs size_syms = Return size_syms \<and>
   SynthesizeSizes size_secs size_syms_test =
     Return [SetSizeSynthesized True (mkSym 1000 30), mkSym 1000 10, mkSym 1030 1]"
  by (simp add: size_defs upt_0_3)

theorem SynthesizeSizes_skips_group_witness:
  "(case SynthesizeSizes size_secs size_syms of
      Return syms \<Rightarrow> map sym_Size syms = [10, 0, 1] \<and> map SizeSynthesized syms = [False, False, False]
    | Panic m \<Rightarrow> False)"
  using SynthesizeSizes_skips_group by (simp add: size_defs)

end
